theory Spec2Isabelle
  imports Complex_Main
begin

section \<open>Python values and the parts of the runtime taken as parameters\<close>

text \<open>
  The reader decodes every line with \<^verbatim>\<open>json.loads\<close>, so the values that flow through
  the pipeline are JSON values. \<open>JNull\<close> is Python's \<^verbatim>\<open>None\<close>. A dictionary is an
  association list whose keys are distinct; \<^verbatim>\<open>d.get(k)\<close> is \<open>map_of d k\<close>.
  The type \<open>'f\<close> stands for Python's \<^verbatim>\<open>float\<close>.
\<close>

datatype 'f json =
    JNull
  | JBool bool
  | JInt int
  | JFloat 'f
  | JStr string
  | JList "'f json list"
  | JObj "(string \<times> 'f json) list"

type_synonym 'f sample = "(string \<times> 'f json) list"

datatype py_error =
    TypeError
  | ValueError
  | OverflowError
  | AttributeError
  | OperationalError
  | ProgrammingError
  | SerialException
  | WebSocketDisconnect
  | RuntimeError

text \<open>
  Binary floating point and the grammars that \<^verbatim>\<open>int(str)\<close> and \<^verbatim>\<open>float(str)\<close>
  accept are not modelled bit for bit; they are parameters of every definition below.
  \<open>None\<close> is the exception the builtin raises: \<^verbatim>\<open>ValueError\<close> for a string that does
  not parse, \<^verbatim>\<open>OverflowError\<close> for an integer beyond the float range.
  \<open>int_of_float\<close> truncates, and raises on NaN and on the infinities.
\<close>

record 'f pyrt =
  int_of_str :: "string \<Rightarrow> int option"
  float_of_str :: "string \<Rightarrow> 'f option"
  float_of_int :: "int \<Rightarrow> 'f option"
  int_of_float :: "'f \<Rightarrow> py_error + int"
  fmul :: "'f \<Rightarrow> 'f \<Rightarrow> 'f"

text \<open>The three torque constants, read from the environment at start-up.\<close>

record 'f config =
  K_T_NM_PER_AMP :: 'f
  GEAR_RATIO :: 'f
  DRIVETRAIN_EFF :: 'f

text \<open>\<^verbatim>\<open>int(x)\<close> on a decoded JSON value.\<close>

fun py_int :: "'f pyrt \<Rightarrow> 'f json \<Rightarrow> py_error + int" where
  "py_int rt JNull = Inl TypeError"
| "py_int rt (JBool b) = Inr (if b then 1 else 0)"
| "py_int rt (JInt n) = Inr n"
| "py_int rt (JFloat x) = int_of_float rt x"
| "py_int rt (JStr s) = (case int_of_str rt s of None \<Rightarrow> Inl ValueError | Some n \<Rightarrow> Inr n)"
| "py_int rt (JList xs) = Inl TypeError"
| "py_int rt (JObj kvs) = Inl TypeError"

text \<open>\<^verbatim>\<open>float(x)\<close> on a decoded JSON value.\<close>

fun py_float :: "'f pyrt \<Rightarrow> 'f json \<Rightarrow> py_error + 'f" where
  "py_float rt JNull = Inl TypeError"
| "py_float rt (JBool b) =
     (case float_of_int rt (if b then 1 else 0) of None \<Rightarrow> Inl OverflowError | Some x \<Rightarrow> Inr x)"
| "py_float rt (JInt n) =
     (case float_of_int rt n of None \<Rightarrow> Inl OverflowError | Some x \<Rightarrow> Inr x)"
| "py_float rt (JFloat x) = Inr x"
| "py_float rt (JStr s) = (case float_of_str rt s of None \<Rightarrow> Inl ValueError | Some x \<Rightarrow> Inr x)"
| "py_float rt (JList xs) = Inl TypeError"
| "py_float rt (JObj kvs) = Inl TypeError"

text \<open>\<^verbatim>\<open>d.get(k)\<close> and \<^verbatim>\<open>d.get(k, default)\<close>.\<close>

definition dict_get :: "(string \<times> 'f json) list \<Rightarrow> string \<Rightarrow> 'f json" where
  "dict_get d k = (case map_of d k of None \<Rightarrow> JNull | Some v \<Rightarrow> v)"

definition dict_get_default :: "(string \<times> 'f json) list \<Rightarrow> string \<Rightarrow> 'f json \<Rightarrow> 'f json" where
  "dict_get_default d k dflt = (case map_of d k of None \<Rightarrow> dflt | Some v \<Rightarrow> v)"

section \<open>Telemetry parsing and enrichment\<close>

text \<open>
  \<open>now\<close> is \<^verbatim>\<open>int(time.time() * 1000)\<close>. A value that is not a dictionary has no
  \<^verbatim>\<open>get\<close>: the first lookup raises \<^verbatim>\<open>AttributeError\<close>. The two \<^verbatim>\<open>int(...)\<close>
  conversions are outside any \<^verbatim>\<open>try\<close>; only the torque estimate is guarded.
\<close>

definition estimate_torque :: "'f pyrt \<Rightarrow> 'f config \<Rightarrow> 'f json \<Rightarrow> 'f json \<Rightarrow> 'f json" where
  "estimate_torque rt cfg torque A =
     (if torque = JNull \<and> A \<noteq> JNull then
        (case py_float rt A of
           Inr a \<Rightarrow>
             JFloat (fmul rt (fmul rt (fmul rt a (K_T_NM_PER_AMP cfg)) (GEAR_RATIO cfg))
                       (DRIVETRAIN_EFF cfg))
         | Inl e \<Rightarrow> JNull)
      else torque)"

definition enrich_sample :: "'f pyrt \<Rightarrow> 'f config \<Rightarrow> int \<Rightarrow> 'f json \<Rightarrow> py_error + 'f sample" where
  "enrich_sample rt cfg now raw =
     (case raw of
        JObj d \<Rightarrow>
          (let t_val = dict_get d ''t'';
               t_val = (if t_val = JNull then JInt now else t_val)
           in case py_int rt t_val of
                Inl e \<Rightarrow> Inl e
              | Inr t_ms \<Rightarrow>
                  (case py_int rt (dict_get_default d ''lap'' (JInt 0)) of
                     Inl e \<Rightarrow> Inl e
                   | Inr lap \<Rightarrow>
                       (let V = dict_get d ''V'';
                            A = dict_get d ''A'';
                            Ah = dict_get d ''Ah'';
                            mph = dict_get d ''mph'';
                            torque = estimate_torque rt cfg (dict_get d ''torque'') A;
                            lat = dict_get d ''lat'';
                            lon = dict_get d ''lon''
                        in Inr [(''t_ms'', JInt t_ms),
                                (''lap'', JInt lap),
                                (''V'', V),
                                (''A'', A),
                                (''Ah'', Ah),
                                (''mph'', mph),
                                (''torque'', torque),
                                (''lat'', lat),
                                (''lon'', lon)])))
      | _ \<Rightarrow> Inl AttributeError)"

text \<open>
  A runtime for concrete evaluations: exact arithmetic on the reals in place of binary
  floating point, and parsers that accept plain decimal integers with an optional sign.
\<close>

definition digit_val :: "char \<Rightarrow> nat option" where
  "digit_val c =
     (let code = (of_char c :: nat)
      in if 48 \<le> code \<and> code \<le> 57 then Some (code - 48) else None)"

fun dec_digits :: "nat \<Rightarrow> string \<Rightarrow> nat option" where
  "dec_digits acc [] = Some acc"
| "dec_digits acc (c # cs) =
     (case digit_val c of None \<Rightarrow> None | Some d \<Rightarrow> dec_digits (10 * acc + d) cs)"

definition dec_int :: "string \<Rightarrow> int option" where
  "dec_int s =
     (case s of
        [] \<Rightarrow> None
      | c # cs \<Rightarrow>
          if c = CHR ''-'' then (if cs = [] then None else map_option (\<lambda>n. - int n) (dec_digits 0 cs))
          else if c = CHR ''+'' then (if cs = [] then None else map_option int (dec_digits 0 cs))
          else map_option int (dec_digits 0 s))"

definition exact_rt :: "real pyrt" where
  "exact_rt =
     \<lparr> int_of_str = dec_int,
       float_of_str = (\<lambda>s. map_option real_of_int (dec_int s)),
       float_of_int = (\<lambda>n. Some (real_of_int n)),
       int_of_float = (\<lambda>x. Inr (if 0 \<le> x then \<lfloor>x\<rfloor> else \<lceil>x\<rceil>)),
       fmul = (\<lambda>x y. x * y) \<rparr>"

definition default_config :: "real config" where
  "default_config = \<lparr> K_T_NM_PER_AMP = 6 / 100, GEAR_RATIO = 10, DRIVETRAIN_EFF = 9 / 10 \<rparr>"

text \<open>The key names of a canonical sample, in the order of the dictionary literal.\<close>

definition canonical_keys :: "string list" where
  "canonical_keys =
     [''t_ms'', ''lap'', ''V'', ''A'', ''Ah'', ''mph'', ''torque'', ''lat'', ''lon'']"

section \<open>Database helpers\<close>

text \<open>
  The table \<^verbatim>\<open>samples\<close> is the list of its rows in insertion order (the autoincrement
  \<^verbatim>\<open>id\<close>). \<open>col_t_ms\<close> and \<open>col_lap\<close> are the two \<^verbatim>\<open>INTEGER NOT NULL\<close> columns;
  \<open>col_values\<close> holds what was bound to \<^verbatim>\<open>V, A, Ah, mph, torque, lat, lon\<close>, in this
  order (column affinity is not applied to them; no definition below reads them back).
  \<open>available\<close> says whether \<^verbatim>\<open>sqlite3.connect\<close> and the statements on the connection
  succeed; when it is false they raise \<^verbatim>\<open>OperationalError\<close>.
\<close>

datatype 'f sqlval = SqlNull | SqlInt int | SqlReal 'f | SqlText string

record 'f row =
  col_t_ms :: int
  col_lap :: int
  col_values :: "'f sqlval list"

record 'f store =
  rows :: "'f row list"
  available :: bool

text \<open>
  Binding a Python value to a statement parameter: \<^verbatim>\<open>None\<close>, integers (64-bit signed,
  else \<^verbatim>\<open>OverflowError\<close>), floats and strings are supported; a list or a dictionary is
  refused by \<^verbatim>\<open>sqlite3\<close>.
\<close>

fun sqlite_bind :: "'f json \<Rightarrow> py_error + 'f sqlval" where
  "sqlite_bind JNull = Inr SqlNull"
| "sqlite_bind (JBool b) = Inr (SqlInt (if b then 1 else 0))"
| "sqlite_bind (JInt n) =
     (if - (2 ^ 63) \<le> n \<and> n < 2 ^ 63 then Inr (SqlInt n) else Inl OverflowError)"
| "sqlite_bind (JFloat x) = Inr (SqlReal x)"
| "sqlite_bind (JStr s) = Inr (SqlText s)"
| "sqlite_bind (JList xs) = Inl ProgrammingError"
| "sqlite_bind (JObj d) = Inl ProgrammingError"

fun bind_params :: "'f json list \<Rightarrow> py_error + 'f sqlval list" where
  "bind_params [] = Inr []"
| "bind_params (p # ps) =
     (case sqlite_bind p of
        Inl e \<Rightarrow> Inl e
      | Inr v \<Rightarrow> (case bind_params ps of Inl e \<Rightarrow> Inl e | Inr vs \<Rightarrow> Inr (v # vs)))"

definition insert_sample :: "'f pyrt \<Rightarrow> 'f store \<Rightarrow> 'f sample \<Rightarrow> py_error + 'f store" where
  "insert_sample rt st s =
     (if \<not> available st then Inl OperationalError
      else case py_int rt (dict_get_default s ''t_ms'' (JInt 0)) of
        Inl e \<Rightarrow> Inl e
      | Inr t_ms \<Rightarrow>
          (case py_int rt (dict_get_default s ''lap'' (JInt 0)) of
             Inl e \<Rightarrow> Inl e
           | Inr lap \<Rightarrow>
               (case bind_params
                       [JInt t_ms, JInt lap, dict_get s ''V'', dict_get s ''A'', dict_get s ''Ah'',
                        dict_get s ''mph'', dict_get s ''torque'', dict_get s ''lat'',
                        dict_get s ''lon''] of
                  Inl e \<Rightarrow> Inl e
                | Inr vs \<Rightarrow>
                    Inr (st\<lparr>rows := rows st @
                           [\<lparr>col_t_ms = t_ms, col_lap = lap, col_values = drop 2 vs\<rparr>]\<rparr>))))"

text \<open>\<^verbatim>\<open>SELECT DISTINCT lap FROM samples ORDER BY lap ASC\<close>\<close>

definition get_laps :: "'f store \<Rightarrow> py_error + int list" where
  "get_laps st =
     (if \<not> available st then Inl OperationalError
      else Inr (sort (remdups (map col_lap (rows st)))))"

text \<open>
  \<^verbatim>\<open>SELECT MAX(lap) AS maxlap FROM samples\<close>: one row, whose \<^verbatim>\<open>maxlap\<close> is
  \<^verbatim>\<open>NULL\<close> on an empty table; then the function returns \<open>0\<close>.
\<close>

definition get_latest_lap :: "'f store \<Rightarrow> py_error + int" where
  "get_latest_lap st =
     (if \<not> available st then Inl OperationalError
      else case map col_lap (rows st) of
        [] \<Rightarrow> Inr 0
      | l # ls \<Rightarrow> Inr (fold max ls l))"

definition api_laps :: "'f store \<Rightarrow> py_error + int list \<times> int" where
  "api_laps st =
     (case get_laps st of
        Inl e \<Rightarrow> Inl e
      | Inr laps \<Rightarrow> (case get_latest_lap st of Inl e \<Rightarrow> Inl e | Inr latest \<Rightarrow> Inr (laps, latest)))"

section \<open>Process state\<close>

text \<open>
  The module's globals are \<open>clients\<close>, \<open>latest_sample\<close>, \<open>simulation_mode\<close> and
  \<open>simulation_task\<close>; \<open>database\<close> is the file behind \<^verbatim>\<open>DB_PATH\<close>. The set
  \<open>clients\<close> is a list without repetitions, iterated from its head. The other fields
  record what the code does to the outside:
  \<^item> \<open>generators\<close> counts the tasks made by \<^verbatim>\<open>asyncio.create_task(simulation_runner())\<close>;
  \<^item> \<open>reader\<close> is where \<^verbatim>\<open>serial_reader\<close> stands: at the top of its outer loop
    (\<open>Connecting\<close>), or inside the read loop with an open port (\<open>Reading\<close>);
  \<^item> \<open>lines_read\<close> counts the calls of \<^verbatim>\<open>ser.readline()\<close>;
  \<^item> \<open>link w\<close> is the state of the socket \<open>w\<close>: \<^verbatim>\<open>send_text\<close> succeeds on \<open>Up\<close>,
    raises \<^verbatim>\<open>WebSocketDisconnect\<close> on \<open>Closed\<close> and another exception on \<open>Broken\<close>;
  \<^item> \<open>delivered\<close> lists, oldest first, every message a socket has accepted.
  Every function below is the code between two suspension points of its task, except
  \<open>broadcast\<close>, which suspends at every send: \<open>broadcast_next\<close> and \<open>broadcast_run\<close>
  follow it send by send, with what the other tasks do in between.
\<close>

datatype reader_pc = Connecting | Reading

datatype link_state = Up | Closed | Broken

record ('f, 'ws) state =
  clients :: "'ws list"
  latest_sample :: "'f sample"
  simulation_mode :: bool
  simulation_task :: "nat option"
  database :: "'f store"
  generators :: nat
  reader :: reader_pc
  lines_read :: nat
  link :: "'ws \<Rightarrow> link_state"
  delivered :: "('ws \<times> 'f sample) list"

definition initial_state :: "('ws \<Rightarrow> link_state) \<Rightarrow> ('f, 'ws) state" where
  "initial_state l =
     \<lparr> clients = [], latest_sample = [], simulation_mode = False, simulation_task = None,
       database = \<lparr>rows = [], available = True\<rparr>, generators = 0, reader = Connecting,
       lines_read = 0, link = l, delivered = [] \<rparr>"

text \<open>The messages socket \<open>w\<close> has received, oldest first.\<close>

definition received :: "('f, 'ws) state \<Rightarrow> 'ws \<Rightarrow> 'f sample list" where
  "received s w = map snd (filter (\<lambda>p. fst p = w) (delivered s))"

definition set_add :: "'a \<Rightarrow> 'a list \<Rightarrow> 'a list" where
  "set_add x xs = (if x \<in> set xs then xs else xs @ [x])"

definition set_discard :: "'a \<Rightarrow> 'a list \<Rightarrow> 'a list" where
  "set_discard x xs = removeAll x xs"

section \<open>Broadcast\<close>

text \<open>
  \<^verbatim>\<open>await ws.send_text(json.dumps(sample))\<close>; the message is identified with the sample
  it serialises.
\<close>

definition send_text :: "('f, 'ws) state \<Rightarrow> 'ws \<Rightarrow> 'f sample \<Rightarrow> py_error + ('f, 'ws) state" where
  "send_text s w msg =
     (case link s w of
        Up \<Rightarrow> Inr (s\<lparr>delivered := delivered s @ [(w, msg)]\<rparr>)
      | Closed \<Rightarrow> Inl WebSocketDisconnect
      | Broken \<Rightarrow> Inl RuntimeError)"

text \<open>
  \<open>broadcast_loop\<close> and \<open>broadcast\<close> are a call of \<^verbatim>\<open>broadcast\<close> during which no other
  task changes \<open>clients\<close>: the first loop over the sockets still to visit, then the
  second loop. The reader and the generator are followed with such a call. The call
  under interleaving is \<open>broadcast_run\<close> below, and \<open>broadcast\<close> is its value when the
  other tasks do nothing.
\<close>

fun broadcast_loop ::
  "('f, 'ws) state \<Rightarrow> 'ws list \<Rightarrow> 'f sample \<Rightarrow> 'ws list \<Rightarrow> ('f, 'ws) state \<times> 'ws list" where
  "broadcast_loop s [] sample dead = (s, dead)"
| "broadcast_loop s (w # ws) sample dead =
     (case send_text s w sample of
        Inr s' \<Rightarrow> broadcast_loop s' ws sample dead
      | Inl e \<Rightarrow> broadcast_loop s ws sample (dead @ [w]))"

definition broadcast :: "('f, 'ws) state \<Rightarrow> 'f sample \<Rightarrow> ('f, 'ws) state" where
  "broadcast s sample =
     (case broadcast_loop s (clients s) sample [] of
        (s', dead) \<Rightarrow> s'\<lparr>clients := fold set_discard dead (clients s')\<rparr>)"

section \<open>Serial reader task\<close>

text \<open>
  What \<^verbatim>\<open>ser.readline()\<close>, the decoding and \<^verbatim>\<open>json.loads\<close> give for one line: a
  transport exception, an empty line, a line that is not JSON, or a decoded value.
\<close>

datatype 'f read_result = ReadFails | EmptyLine | NotJson | Decoded "'f json"

text \<open>
  One pass of the outer loop up to the read loop. \<open>port_opens\<close> says whether
  \<^verbatim>\<open>serial.Serial(...)\<close> and \<^verbatim>\<open>reset_input_buffer\<close> succeed.
\<close>

definition serial_reader_connect :: "('f, 'ws) state \<Rightarrow> bool \<Rightarrow> ('f, 'ws) state" where
  "serial_reader_connect s port_opens =
     (if simulation_mode s then s
      else if port_opens then s\<lparr>reader := Reading\<rparr>
      else s)"

text \<open>
  One pass of the read loop. Any exception leaves the loop through the outer
  \<^verbatim>\<open>except Exception\<close>, which sleeps and goes back to the top of the outer loop.
\<close>

definition serial_reader_line ::
  "'f pyrt \<Rightarrow> 'f config \<Rightarrow> int \<Rightarrow> ('f, 'ws) state \<Rightarrow> 'f read_result \<Rightarrow> ('f, 'ws) state" where
  "serial_reader_line rt cfg now s r =
     (if simulation_mode s then s\<lparr>reader := Connecting\<rparr>
      else
        (let s0 = s\<lparr>lines_read := Suc (lines_read s)\<rparr>
         in case r of
              ReadFails \<Rightarrow> s0\<lparr>reader := Connecting\<rparr>
            | EmptyLine \<Rightarrow> s0
            | NotJson \<Rightarrow> s0
            | Decoded raw \<Rightarrow>
                (case enrich_sample rt cfg now raw of
                   Inl e \<Rightarrow> s0\<lparr>reader := Connecting\<rparr>
                 | Inr sample \<Rightarrow>
                     (let s1 = s0\<lparr>latest_sample := sample\<rparr>
                      in case insert_sample rt (database s1) sample of
                           Inl e \<Rightarrow> s1\<lparr>reader := Connecting\<rparr>
                         | Inr db \<Rightarrow> broadcast (s1\<lparr>database := db\<rparr>) sample))))"

definition serial_reader ::
  "'f pyrt \<Rightarrow> 'f config \<Rightarrow> int \<Rightarrow> ('f, 'ws) state \<Rightarrow> bool \<Rightarrow> 'f read_result \<Rightarrow> ('f, 'ws) state" where
  "serial_reader rt cfg now s port_opens r =
     (case reader s of
        Connecting \<Rightarrow> serial_reader_connect s port_opens
      | Reading \<Rightarrow> serial_reader_line rt cfg now s r)"

section \<open>Simulation\<close>






definition start_simulation :: "('f, 'ws) state \<Rightarrow> ('f, 'ws) state \<times> string" where
  "start_simulation s =
     (if \<not> simulation_mode s then
        (s\<lparr>simulation_mode := True,
           simulation_task := Some (generators s),
           generators := Suc (generators s)\<rparr>,
         ''simulation started'')
      else (s, ''simulation already running''))"

definition stop_simulation :: "('f, 'ws) state \<Rightarrow> ('f, 'ws) state \<times> string" where
  "stop_simulation s =
     (if simulation_mode s then (s\<lparr>simulation_mode := False\<rparr>, ''simulation stopped'')
      else (s, ''simulation not running''))"


section \<open>Observers\<close>

text \<open>
  \<^verbatim>\<open>ws_endpoint\<close> after \<^verbatim>\<open>accept\<close>, up to the first \<^verbatim>\<open>receive_text\<close>. Only
  \<^verbatim>\<open>WebSocketDisconnect\<close> is caught; any other exception ends the handler and leaves
  the socket in \<open>clients\<close>.
\<close>

definition ws_endpoint :: "('f, 'ws) state \<Rightarrow> 'ws \<Rightarrow> ('f, 'ws) state" where
  "ws_endpoint s websocket =
     (let s1 = s\<lparr>clients := set_add websocket (clients s)\<rparr>
      in if latest_sample s1 \<noteq> [] then
           (case send_text s1 websocket (latest_sample s1) of
              Inr s2 \<Rightarrow> s2
            | Inl e \<Rightarrow>
                if e = WebSocketDisconnect
                then s1\<lparr>clients := set_discard websocket (clients s1)\<rparr>
                else s1)
         else s1)"

text \<open>\<^verbatim>\<open>receive_text\<close> raising \<^verbatim>\<open>WebSocketDisconnect\<close> in the keep-alive loop.\<close>

definition ws_disconnect :: "('f, 'ws) state \<Rightarrow> 'ws \<Rightarrow> ('f, 'ws) state" where
  "ws_disconnect s websocket = s\<lparr>clients := set_discard websocket (clients s)\<rparr>"

definition api_latest :: "('f, 'ws) state \<Rightarrow> 'f sample" where
  "api_latest s = latest_sample s"

section \<open>Broadcast, send by send\<close>

text \<open>
  \<^verbatim>\<open>for ws in clients\<close> iterates the set object itself, and each
  \<^verbatim>\<open>await ws.send_text(...)\<close> is a suspension point at which other tasks run. The
  iterator remembers the size of the set when the loop began and raises
  \<^verbatim>\<open>RuntimeError\<close> (set changed size during iteration) at the next step if the size
  differs; the \<^verbatim>\<open>try\<close> is inside the loop body, so this exception leaves
  \<^verbatim>\<open>broadcast\<close> before the second loop. \<open>cursor\<close> is the number of sockets already
  visited and \<open>failed\<close> is the local list \<^verbatim>\<open>dead\<close>. The list \<open>clients\<close> gives the order
  in which the iterator meets the sockets of a set that has not changed.
\<close>

record 'ws publish =
  cursor :: nat
  size_at_start :: nat
  failed :: "'ws list"

datatype ('f, 'ws) progress =
    Suspended "('f, 'ws) state" "'ws publish"
  | Returned "('f, 'ws) state"
  | Raised py_error "('f, 'ws) state"

definition broadcast_begin :: "('f, 'ws) state \<Rightarrow> 'ws publish" where
  "broadcast_begin s = \<lparr>cursor = 0, size_at_start = length (clients s), failed = []\<rparr>"

text \<open>
  From the loop header to the end of the next send, or, when the iterator is exhausted,
  the second loop and the return.
\<close>

definition broadcast_next ::
  "('f, 'ws) state \<Rightarrow> 'f sample \<Rightarrow> 'ws publish \<Rightarrow> ('f, 'ws) progress" where
  "broadcast_next s sample p =
     (if length (clients s) \<noteq> size_at_start p then Raised RuntimeError s
      else if cursor p < length (clients s) then
        (let ws = clients s ! cursor p
         in case send_text s ws sample of
              Inr s' \<Rightarrow> Suspended s' (p\<lparr>cursor := Suc (cursor p)\<rparr>)
            | Inl e \<Rightarrow> Suspended s (p\<lparr>cursor := Suc (cursor p), failed := failed p @ [ws]\<rparr>))
      else Returned (s\<lparr>clients := fold set_discard (failed p) (clients s)\<rparr>))"

text \<open>
  What another task does while a send is suspended: nothing, a handler \<^verbatim>\<open>ws_endpoint\<close>
  starting for a new connection, or the handler of a socket leaving its keep-alive loop
  on \<^verbatim>\<open>WebSocketDisconnect\<close>.
\<close>

datatype 'ws other_task = Nothing | Connects 'ws | Disconnects 'ws

definition interleave :: "('f, 'ws) state \<Rightarrow> 'ws other_task \<Rightarrow> ('f, 'ws) state" where
  "interleave s ev =
     (case ev of
        Nothing \<Rightarrow> s
      | Connects w \<Rightarrow> ws_endpoint s w
      | Disconnects w \<Rightarrow> ws_disconnect s w)"

text \<open>
  The call of \<^verbatim>\<open>broadcast\<close> from the state of its iterator; the list says what the
  other tasks do during each send in turn.
\<close>

fun broadcast_run ::
  "('f, 'ws) state \<Rightarrow> 'f sample \<Rightarrow> 'ws publish \<Rightarrow> 'ws other_task list \<Rightarrow> ('f, 'ws) progress" where
  "broadcast_run s sample p [] = broadcast_next s sample p"
| "broadcast_run s sample p (ev # evs) =
     (case broadcast_next s sample p of
        Suspended s' p' \<Rightarrow> broadcast_run (interleave s' ev) sample p' evs
      | Returned s' \<Rightarrow> Returned s'
      | Raised e s' \<Rightarrow> Raised e s')"

section \<open>Example inputs\<close>

text \<open>Appending samples one after the other, stopping at the first failure.\<close>

fun insert_samples :: "'f pyrt \<Rightarrow> 'f store \<Rightarrow> 'f sample list \<Rightarrow> py_error + 'f store" where
  "insert_samples rt st [] = Inr st"
| "insert_samples rt st (x # xs) =
     (case insert_sample rt st x of Inl e \<Rightarrow> Inl e | Inr st' \<Rightarrow> insert_samples rt st' xs)"

definition empty_store :: "'f store" where
  "empty_store = \<lparr>rows = [], available = True\<rparr>"

section \<open>Properties of enrichment\<close>

lemma enrich_sample_InrD:
  assumes "enrich_sample rt cfg now raw = Inr s"
  obtains d t_ms lap where
    "raw = JObj d"
    "py_int rt (if dict_get d ''t'' = JNull then JInt now else dict_get d ''t'') = Inr t_ms"
    "py_int rt (dict_get_default d ''lap'' (JInt 0)) = Inr lap"
    "s = [(''t_ms'', JInt t_ms), (''lap'', JInt lap), (''V'', dict_get d ''V''),
          (''A'', dict_get d ''A''), (''Ah'', dict_get d ''Ah''), (''mph'', dict_get d ''mph''),
          (''torque'', estimate_torque rt cfg (dict_get d ''torque'') (dict_get d ''A'')),
          (''lat'', dict_get d ''lat''), (''lon'', dict_get d ''lon'')]"
  using assms
  by (auto simp: enrich_sample_def Let_def split: json.splits sum.splits)

text \<open>
  C10. Every sample that \<open>enrich_sample\<close> returns has exactly the nine canonical keys
  \<open>t_ms, lap, V, A, Ah, mph, torque, lat, lon\<close>, in this order and with no other key, and
  the values under \<open>t_ms\<close> and \<open>lap\<close> are integers.
\<close>

theorem enrich_sample_canonical_fields:
  assumes "enrich_sample rt cfg now raw = Inr s"
  shows "map fst s = canonical_keys
       \<and> (\<exists>t. map_of s ''t_ms'' = Some (JInt t))
       \<and> (\<exists>l. map_of s ''lap'' = Some (JInt l))"
  using assms by (elim enrich_sample_InrD) (simp add: canonical_keys_def)

theorem enrich_sample_canonical_fields_witness:
  "enrich_sample exact_rt default_config 1000 (JObj [(''A'', JInt 50), (''lap'', JInt 3), (''x'', JStr ''y'')])
     = Inr [(''t_ms'', JInt 1000), (''lap'', JInt 3), (''V'', JNull), (''A'', JInt 50),
            (''Ah'', JNull), (''mph'', JNull), (''torque'', JFloat 27), (''lat'', JNull),
            (''lon'', JNull)]
   \<and> map fst [(''t_ms'', JInt 1000), (''lap'', JInt 3), (''V'', JNull), (''A'', JInt 50),
            (''Ah'', JNull), (''mph'', JNull), (''torque'', JFloat (27::real)), (''lat'', JNull),
            (''lon'', JNull)] = canonical_keys"
proof -
  have e: "enrich_sample exact_rt default_config 1000
             (JObj [(''A'', JInt 50), (''lap'', JInt 3), (''x'', JStr ''y'')])
     = Inr [(''t_ms'', JInt 1000), (''lap'', JInt 3), (''V'', JNull), (''A'', JInt 50),
            (''Ah'', JNull), (''mph'', JNull), (''torque'', JFloat 27), (''lat'', JNull),
            (''lon'', JNull)]"
    by (simp add: enrich_sample_def estimate_torque_def dict_get_def dict_get_default_def
        exact_rt_def default_config_def)
  from enrich_sample_canonical_fields [OF e] e show ?thesis by simp
qed

lemmas enrich_eval =
  enrich_sample_def estimate_torque_def dict_get_def dict_get_default_def
  exact_rt_def default_config_def dec_int_def digit_val_def

text \<open>
  C2. The claim: \<open>enrich_sample\<close> never raises, and a timestamp that cannot be converted
  is replaced by the wall clock. The code converts with a bare \<^verbatim>\<open>int(...)\<close>: on the raw
  record \<^verbatim>\<open>{"t": "abc"}\<close> the call raises \<^verbatim>\<open>ValueError\<close>, and so it does on
  \<^verbatim>\<open>{"lap": "abc"}\<close>; a \<^verbatim>\<open>null\<close> lap raises \<^verbatim>\<open>TypeError\<close>.
\<close>

theorem enrich_sample_raises_on_bad_int:
  "enrich_sample exact_rt default_config 1000 (JObj [(''t'', JStr ''abc'')]) = Inl ValueError
   \<and> enrich_sample exact_rt default_config 1000 (JObj [(''lap'', JStr ''abc'')]) = Inl ValueError
   \<and> enrich_sample exact_rt default_config 1000 (JObj [(''lap'', JNull)]) = Inl TypeError"
  by (simp add: enrich_eval)

text \<open>
  C3. Torque of an enriched sample. A field counts as absent when \<^verbatim>\<open>raw.get\<close> gives
  \<^verbatim>\<open>None\<close>, as in the code. When torque is absent and \<^verbatim>\<open>float(A)\<close> succeeds with
  \<open>a\<close>, the torque is \<open>a \<times> K_T \<times> GEAR_RATIO \<times> EFF\<close>, multiplied from the left in float
  arithmetic; a torque that is present passes through unchanged whatever the current is;
  when torque is absent and the current is absent or not convertible, torque stays absent.
  With exact arithmetic and the constants 0.06, 10 and 0.9, the raw record
  \<^verbatim>\<open>{"A": 50, "lap": 3}\<close> gives torque 27 and lap 3.
\<close>

theorem enrich_sample_torque:
  assumes "enrich_sample rt cfg now (JObj d) = Inr s"
  shows "(\<forall>a. dict_get d ''torque'' = JNull \<and> py_float rt (dict_get d ''A'') = Inr a \<longrightarrow>
            map_of s ''torque'' =
              Some (JFloat (fmul rt (fmul rt (fmul rt a (K_T_NM_PER_AMP cfg)) (GEAR_RATIO cfg))
                              (DRIVETRAIN_EFF cfg))))
       \<and> (dict_get d ''torque'' \<noteq> JNull \<longrightarrow> map_of s ''torque'' = Some (dict_get d ''torque''))
       \<and> (dict_get d ''torque'' = JNull \<and> (\<forall>a. py_float rt (dict_get d ''A'') \<noteq> Inr a) \<longrightarrow>
            map_of s ''torque'' = Some JNull)
       \<and> (\<forall>t. enrich_sample exact_rt default_config t (JObj [(''A'', JInt 50), (''lap'', JInt 3)])
            = Inr [(''t_ms'', JInt t), (''lap'', JInt 3), (''V'', JNull), (''A'', JInt 50),
                   (''Ah'', JNull), (''mph'', JNull), (''torque'', JFloat 27), (''lat'', JNull),
                   (''lon'', JNull)])"
proof -
  have ex: "\<forall>t. enrich_sample exact_rt default_config t (JObj [(''A'', JInt 50), (''lap'', JInt 3)])
            = Inr [(''t_ms'', JInt t), (''lap'', JInt 3), (''V'', JNull), (''A'', JInt 50),
                   (''Ah'', JNull), (''mph'', JNull), (''torque'', JFloat 27), (''lat'', JNull),
                   (''lon'', JNull)]"
    by (simp add: enrich_eval)
  from assms have tq:
    "map_of s ''torque'' = Some (estimate_torque rt cfg (dict_get d ''torque'') (dict_get d ''A''))"
    by (elim enrich_sample_InrD) simp
  have nn: "dict_get d ''A'' \<noteq> JNull" if "py_float rt (dict_get d ''A'') = Inr a" for a
    using that by (cases "dict_get d ''A''") auto
  have a: "estimate_torque rt cfg (dict_get d ''torque'') (dict_get d ''A'') =
            JFloat (fmul rt (fmul rt (fmul rt a (K_T_NM_PER_AMP cfg)) (GEAR_RATIO cfg))
                      (DRIVETRAIN_EFF cfg))"
    if "dict_get d ''torque'' = JNull" "py_float rt (dict_get d ''A'') = Inr a" for a
    using that nn [OF that(2)] by (simp add: estimate_torque_def)
  have b: "estimate_torque rt cfg (dict_get d ''torque'') (dict_get d ''A'') = dict_get d ''torque''"
    if "dict_get d ''torque'' \<noteq> JNull"
    using that by (simp add: estimate_torque_def)
  have c: "estimate_torque rt cfg (dict_get d ''torque'') (dict_get d ''A'') = JNull"
    if "dict_get d ''torque'' = JNull" "\<forall>a. py_float rt (dict_get d ''A'') \<noteq> Inr a"
    using that by (auto simp: estimate_torque_def split: sum.splits)
  from tq a b c ex show ?thesis by simp
qed

theorem enrich_sample_torque_witness:
  "map_of (projr (enrich_sample exact_rt default_config 8 (JObj [(''t'', JInt 7), (''A'', JStr ''12'')])))
       ''torque''
     = Some (JFloat (fmul exact_rt (fmul exact_rt (fmul exact_rt 12 (K_T_NM_PER_AMP default_config))
                (GEAR_RATIO default_config)) (DRIVETRAIN_EFF default_config)))
   \<and> map_of (projr (enrich_sample exact_rt default_config 8
                (JObj [(''t'', JInt 7), (''A'', JInt 50), (''torque'', JInt 3)]))) ''torque''
     = Some (JInt 3)
   \<and> map_of (projr (enrich_sample exact_rt default_config 8
                (JObj [(''t'', JInt 7), (''A'', JStr ''fast'')]))) ''torque''
     = Some JNull"
proof -
  let ?d1 = "[(''t'', JInt 7), (''A'', JStr ''12'')] :: (string \<times> real json) list"
  let ?d2 = "[(''t'', JInt 7), (''A'', JInt 50), (''torque'', JInt 3)] :: (string \<times> real json) list"
  let ?d3 = "[(''t'', JInt 7), (''A'', JStr ''fast'')] :: (string \<times> real json) list"
  have e1: "enrich_sample exact_rt default_config 8 (JObj ?d1)
     = Inr [(''t_ms'', JInt 7), (''lap'', JInt 0), (''V'', JNull), (''A'', JStr ''12''),
            (''Ah'', JNull), (''mph'', JNull), (''torque'', JFloat (12 * (6 / 100) * 10 * (9 / 10))),
            (''lat'', JNull), (''lon'', JNull)]"
    by (simp add: enrich_eval)
  have e2: "enrich_sample exact_rt default_config 8 (JObj ?d2)
     = Inr [(''t_ms'', JInt 7), (''lap'', JInt 0), (''V'', JNull), (''A'', JInt 50),
            (''Ah'', JNull), (''mph'', JNull), (''torque'', JInt 3), (''lat'', JNull), (''lon'', JNull)]"
    by (simp add: enrich_eval)
  have e3: "enrich_sample exact_rt default_config 8 (JObj ?d3)
     = Inr [(''t_ms'', JInt 7), (''lap'', JInt 0), (''V'', JNull), (''A'', JStr ''fast''),
            (''Ah'', JNull), (''mph'', JNull), (''torque'', JNull), (''lat'', JNull), (''lon'', JNull)]"
    by (simp add: enrich_eval)
  have p1: "dict_get ?d1 ''torque'' = JNull \<and> py_float exact_rt (dict_get ?d1 ''A'') = Inr 12"
    by (simp add: enrich_eval)
  have p2: "dict_get ?d2 ''torque'' \<noteq> JNull" and v2: "dict_get ?d2 ''torque'' = JInt 3"
    by (simp_all add: enrich_eval)
  have p3: "dict_get ?d3 ''torque'' = JNull \<and> (\<forall>a. py_float exact_rt (dict_get ?d3 ''A'') \<noteq> Inr a)"
    by (simp add: enrich_eval)
  from enrich_sample_torque [OF e1] p1
  have w1: "map_of (projr (enrich_sample exact_rt default_config 8 (JObj ?d1))) ''torque''
     = Some (JFloat (fmul exact_rt (fmul exact_rt (fmul exact_rt 12 (K_T_NM_PER_AMP default_config))
                (GEAR_RATIO default_config)) (DRIVETRAIN_EFF default_config)))"
    unfolding e1 sum.sel by blast
  from enrich_sample_torque [OF e2] p2
  have w2: "map_of (projr (enrich_sample exact_rt default_config 8 (JObj ?d2))) ''torque''
     = Some (dict_get ?d2 ''torque'')"
    unfolding e2 sum.sel by blast
  from enrich_sample_torque [OF e3] p3
  have w3: "map_of (projr (enrich_sample exact_rt default_config 8 (JObj ?d3))) ''torque''
     = Some JNull"
    unfolding e3 sum.sel by blast
  from w1 w2 w3 show ?thesis
    unfolding v2 by blast
qed



section \<open>What a broadcast does\<close>

lemma broadcast_loop_eq:
  "broadcast_loop s ws m dead =
     (s\<lparr>delivered := delivered s @ map (\<lambda>w. (w, m)) (filter (\<lambda>w. link s w = Up) ws)\<rparr>,
      dead @ filter (\<lambda>w. link s w \<noteq> Up) ws)"
proof (induction ws arbitrary: s dead)
  case Nil
  show ?case by simp
next
  case (Cons w ws)
  show ?case
  proof (cases "link s w")
    case Up
    then show ?thesis by (simp add: send_text_def Cons.IH)
  next
    case Closed
    then show ?thesis by (simp add: send_text_def Cons.IH)
  next
    case Broken
    then show ?thesis by (simp add: send_text_def Cons.IH)
  qed
qed

lemma fold_set_discard: "fold set_discard dead xs = filter (\<lambda>x. x \<notin> set dead) xs"
proof (induction dead arbitrary: xs)
  case Nil
  show ?case by simp
next
  case (Cons d dead)
  have "fold set_discard (d # dead) xs = filter (\<lambda>x. x \<notin> set dead) (removeAll d xs)"
    by (simp add: Cons.IH set_discard_def)
  also have "\<dots> = filter (\<lambda>x. x \<notin> set (d # dead)) xs"
    by (induction xs) auto
  finally show ?case .
qed

lemma filter_not_dead:
  "filter (\<lambda>x. x \<notin> set (filter (\<lambda>w. link s w \<noteq> Up) xs)) xs = filter (\<lambda>w. link s w = Up) xs"
  by (rule filter_cong) auto

lemma broadcast_eq:
  "broadcast s m =
     s\<lparr>delivered := delivered s @ map (\<lambda>w. (w, m)) (filter (\<lambda>w. link s w = Up) (clients s)),
       clients := filter (\<lambda>w. link s w = Up) (clients s)\<rparr>"
proof -
  have "fold set_discard (filter (\<lambda>w. link s w \<noteq> Up) (clients s)) (clients s)
          = filter (\<lambda>w. link s w = Up) (clients s)"
    unfolding fold_set_discard by (rule filter_not_dead)
  then show ?thesis
    by (simp add: broadcast_def broadcast_loop_eq)
qed

lemma filter_eq_distinct:
  "distinct ys \<Longrightarrow> filter (\<lambda>x. x = w) ys = (if w \<in> set ys then [w] else [])"
  by (induction ys) auto

lemma one_delivery:
  assumes "distinct xs"
  shows "map snd (filter (\<lambda>p. fst p = w) (map (\<lambda>x. (x, m)) (filter P xs))) =
           (if w \<in> set xs \<and> P w then [m] else [])"
proof -
  have sw: "filter (\<lambda>p. fst p = w) (map (\<lambda>x. (x, m)) zs) = map (\<lambda>x. (x, m)) (filter (\<lambda>x. x = w) zs)"
    for zs
    by (induction zs) auto
  from assms have "distinct (filter P xs)"
    by simp
  from filter_eq_distinct [OF this, of w]
  have "filter (\<lambda>x. x = w) (filter P xs) = (if w \<in> set xs \<and> P w then [w] else [])"
    by simp
  then show ?thesis
    unfolding sw by simp
qed

lemma received_broadcast:
  assumes "distinct (clients s)"
  shows "received (broadcast s m) w =
           received s w @ (if w \<in> set (clients s) \<and> link s w = Up then [m] else [])"
proof -
  have "received (broadcast s m) w =
          received s w @
          map snd (filter (\<lambda>p. fst p = w)
            (map (\<lambda>x. (x, m)) (filter (\<lambda>w. link s w = Up) (clients s))))"
    by (simp add: broadcast_eq received_def)
  then show ?thesis
    unfolding one_delivery [OF assms] .
qed

lemma distinct_set_add: "distinct xs \<Longrightarrow> distinct (set_add x xs)"
  by (simp add: set_add_def)

lemma set_set_add: "set (set_add x xs) = insert x (set xs)"
  by (auto simp: set_add_def)

section \<open>A broadcast with no other task scheduled\<close>

lemma send_text_cases:
  "send_text s w m =
     (if link s w = Up then Inr (s\<lparr>delivered := delivered s @ [(w, m)]\<rparr>)
      else Inl (if link s w = Closed then WebSocketDisconnect else RuntimeError))"
  by (cases "link s w") (simp_all add: send_text_def)

lemma broadcast_run_from:
  assumes "size_at_start p = length (clients s)"
    and "k = length (clients s) - cursor p"
    and "cursor p \<le> length (clients s)"
  shows "broadcast_run s m p (replicate k Nothing) =
           Returned (case broadcast_loop s (drop (cursor p) (clients s)) m (failed p) of
                       (s', d) \<Rightarrow> s'\<lparr>clients := fold set_discard d (clients s')\<rparr>)"
  using assms
proof (induction k arbitrary: s p)
  case 0
  then show ?case by (simp add: broadcast_next_def)
next
  case (Suc k)
  let ?i = "cursor p"
  let ?w = "clients s ! ?i"
  from Suc.prems have lt: "?i < length (clients s)" by simp
  then have dr: "drop ?i (clients s) = ?w # drop (Suc ?i) (clients s)"
    by (simp add: Cons_nth_drop_Suc)
  show ?case
  proof (cases "link s ?w = Up")
    case True
    let ?s' = "s\<lparr>delivered := delivered s @ [(?w, m)]\<rparr>"
    let ?p' = "p\<lparr>cursor := Suc ?i\<rparr>"
    have nx: "broadcast_next s m p = Suspended ?s' ?p'"
      using Suc.prems(1) lt True by (simp add: broadcast_next_def send_text_cases Let_def)
    have "broadcast_run ?s' m ?p' (replicate k Nothing) =
           Returned (case broadcast_loop ?s' (drop (cursor ?p') (clients ?s')) m (failed ?p') of
                       (s', d) \<Rightarrow> s'\<lparr>clients := fold set_discard d (clients s')\<rparr>)"
      using Suc.prems by (intro Suc.IH) simp_all
    then show ?thesis
      using True by (simp add: nx interleave_def dr send_text_cases)
  next
    case False
    let ?p' = "p\<lparr>cursor := Suc ?i, failed := failed p @ [?w]\<rparr>"
    have nx: "broadcast_next s m p = Suspended s ?p'"
      using Suc.prems(1) lt False by (simp add: broadcast_next_def send_text_cases Let_def)
    have "broadcast_run s m ?p' (replicate k Nothing) =
           Returned (case broadcast_loop s (drop (cursor ?p') (clients s)) m (failed ?p') of
                       (s', d) \<Rightarrow> s'\<lparr>clients := fold set_discard d (clients s')\<rparr>)"
      using Suc.prems by (intro Suc.IH) simp_all
    then show ?thesis
      using False by (simp add: nx interleave_def dr send_text_cases)
  qed
qed

text \<open>
  When the other tasks do nothing during the sends, the call returns, and what it
  returns is \<open>broadcast\<close>.
\<close>

lemma broadcast_run_uninterrupted:
  "broadcast_run s m (broadcast_begin s) (replicate (length (clients s)) Nothing) =
     Returned (broadcast s m)"
  using broadcast_run_from [of "broadcast_begin s" s "length (clients s)" m]
  by (simp add: broadcast_begin_def broadcast_def)

text \<open>
  What another task does during one send changes the size of \<open>clients\<close> or leaves the
  list as it is, so a step of the iteration that does not raise finds the sockets at
  the positions they had when the loop began.
\<close>

lemma removeAll_same_length:
  "length (removeAll x xs) = length xs \<Longrightarrow> removeAll x xs = xs"
  by (metis length_removeAll_less less_irrefl removeAll_id)

lemma interleave_same_size:
  assumes "length (clients (interleave s ev)) = length (clients s)"
  shows "clients (interleave s ev) = clients s"
proof (cases ev)
  case Nothing
  then show ?thesis by (simp add: interleave_def)
next
  case (Connects w)
  show ?thesis
  proof (cases "w \<in> set (clients s)")
    case True
    with assms Connects show ?thesis
      by (auto simp: interleave_def ws_endpoint_def send_text_cases set_add_def set_discard_def
          Let_def removeAll_same_length split: if_splits)
  next
    case False
    with assms Connects show ?thesis
      by (auto simp: interleave_def ws_endpoint_def send_text_cases set_add_def set_discard_def
          Let_def split: if_splits)
  qed
next
  case (Disconnects w)
  with assms show ?thesis
    by (simp add: interleave_def ws_disconnect_def set_discard_def removeAll_same_length)
qed

section \<open>Broadcaster and observers\<close>

lemma ws_endpoint_up:
  assumes "link s w = Up"
  shows "ws_endpoint s w =
           (if latest_sample s \<noteq> [] then
              s\<lparr>clients := set_add w (clients s),
                delivered := delivered s @ [(w, latest_sample s)]\<rparr>
            else s\<lparr>clients := set_add w (clients s)\<rparr>)"
  using assms by (simp add: ws_endpoint_def send_text_def Let_def)


text \<open>
  What \<^verbatim>\<open>broadcast\<close> is written to do, and does when no other task changes \<open>clients\<close>
  during the call: every subscribed socket is visited; a socket whose send succeeds
  receives the sample and stays subscribed, whatever happens on the other sockets; a
  socket whose send raises receives nothing and is no longer in \<open>clients\<close> at the
  return. A socket that was not subscribed is neither sent to nor added.
\<close>

lemma broadcast_alone_delivers_and_prunes:
  assumes "distinct (clients s)"
  shows "clients (broadcast s m) = filter (\<lambda>w. link s w = Up) (clients s)
       \<and> (\<forall>w \<in> set (clients s). link s w = Up \<longrightarrow>
            w \<in> set (clients (broadcast s m)) \<and> received (broadcast s m) w = received s w @ [m])
       \<and> (\<forall>w \<in> set (clients s). link s w \<noteq> Up \<longrightarrow>
            w \<notin> set (clients (broadcast s m)) \<and> received (broadcast s m) w = received s w)
       \<and> (\<forall>w. w \<notin> set (clients s) \<longrightarrow>
            w \<notin> set (clients (broadcast s m)) \<and> received (broadcast s m) w = received s w)"
proof -
  have c: "clients (broadcast s m) = filter (\<lambda>w. link s w = Up) (clients s)"
    by (simp add: broadcast_eq)
  have r: "received (broadcast s m) w =
             received s w @ (if w \<in> set (clients s) \<and> link s w = Up then [m] else [])" for w
    by (rule received_broadcast [OF assms])
  show ?thesis
    unfolding c r by simp
qed

text \<open>
  C7 does not hold of \<^verbatim>\<open>broadcast\<close> when the subscriber set changes during the call.
  Sockets \<open>1\<close> to \<open>4\<close> are subscribed; the send to socket \<open>1\<close> raises, which the loop
  catches. While the send to socket \<open>2\<close> is suspended, the handler of socket \<open>4\<close> sees
  its peer disconnect and discards it from \<open>clients\<close>. The next step of the iteration
  raises \<^verbatim>\<open>RuntimeError\<close>, which leaves \<^verbatim>\<open>broadcast\<close>: socket \<open>3\<close>, subscribed and
  connected throughout, is never sent the sample, and socket \<open>1\<close>, whose delivery failed,
  is still subscribed. A socket \<open>5\<close> that subscribes during that send ends the call in the
  same way. With no other task scheduled during the sends, the same call returns, having
  delivered to \<open>2\<close>, \<open>3\<close> and \<open>4\<close> and removed \<open>1\<close>.
\<close>

theorem broadcast_cut_short_by_disconnect:
  "broadcast_run
     ((initial_state (\<lambda>w. if w = 1 then Broken else Up) :: (real, nat) state)
        \<lparr>clients := [1, 2, 3, 4]\<rparr>)
     [(''t_ms'', JInt 5)]
     (broadcast_begin ((initial_state (\<lambda>w. if w = 1 then Broken else Up) :: (real, nat) state)
        \<lparr>clients := [1, 2, 3, 4]\<rparr>))
     [Nothing, Disconnects 4, Nothing, Nothing]
   = Raised RuntimeError
       ((initial_state (\<lambda>w. if w = 1 then Broken else Up) :: (real, nat) state)
          \<lparr>clients := [1, 2, 3], delivered := [(2, [(''t_ms'', JInt 5)])]\<rparr>)
   \<and> broadcast_run
     ((initial_state (\<lambda>w. if w = 1 then Broken else Up) :: (real, nat) state)
        \<lparr>clients := [1, 2, 3, 4]\<rparr>)
     [(''t_ms'', JInt 5)]
     (broadcast_begin ((initial_state (\<lambda>w. if w = 1 then Broken else Up) :: (real, nat) state)
        \<lparr>clients := [1, 2, 3, 4]\<rparr>))
     [Nothing, Connects 5, Nothing, Nothing]
   = Raised RuntimeError
       ((initial_state (\<lambda>w. if w = 1 then Broken else Up) :: (real, nat) state)
          \<lparr>clients := [1, 2, 3, 4, 5], delivered := [(2, [(''t_ms'', JInt 5)])]\<rparr>)
   \<and> broadcast_run
     ((initial_state (\<lambda>w. if w = 1 then Broken else Up) :: (real, nat) state)
        \<lparr>clients := [1, 2, 3, 4]\<rparr>)
     [(''t_ms'', JInt 5)]
     (broadcast_begin ((initial_state (\<lambda>w. if w = 1 then Broken else Up) :: (real, nat) state)
        \<lparr>clients := [1, 2, 3, 4]\<rparr>))
     [Nothing, Nothing, Nothing, Nothing]
   = Returned
       ((initial_state (\<lambda>w. if w = 1 then Broken else Up) :: (real, nat) state)
          \<lparr>clients := [2, 3, 4],
            delivered := [(2, [(''t_ms'', JInt 5)]), (3, [(''t_ms'', JInt 5)]),
                          (4, [(''t_ms'', JInt 5)])]\<rparr>)"
  by (simp add: broadcast_begin_def broadcast_next_def send_text_def interleave_def
      ws_disconnect_def ws_endpoint_def set_discard_def set_add_def initial_state_def Let_def)

text \<open>
  C6. Let socket \<open>w\<close> be connected. If a sample exists when \<open>w\<close> subscribes
  (\<open>latest_sample\<close> is not the empty dictionary), the subscription itself appends that
  sample to what \<open>w\<close> has received, and a sample published afterwards comes after it.
  If no sample exists, the subscription delivers nothing and the next published sample
  is the next message of \<open>w\<close>. For a new socket \<open>received s w\<close> is empty, so these are its
  first messages.
\<close>

theorem ws_endpoint_latest_first:
  assumes "distinct (clients s)" and "link s w = Up"
  shows "(latest_sample s \<noteq> [] \<longrightarrow>
            received (ws_endpoint s w) w = received s w @ [latest_sample s]
          \<and> received (broadcast (ws_endpoint s w) m) w = received s w @ [latest_sample s, m])
       \<and> (latest_sample s = [] \<longrightarrow>
            received (ws_endpoint s w) w = received s w
          \<and> received (broadcast (ws_endpoint s w) m) w = received s w @ [m])"
proof -
  let ?s' = "ws_endpoint s w"
  have d: "distinct (clients ?s')"
    using assms by (simp add: ws_endpoint_up distinct_set_add)
  have mem: "w \<in> set (clients ?s')"
    using assms(2) by (simp add: ws_endpoint_up set_set_add)
  have up: "link ?s' w = Up"
    using assms(2) by (simp add: ws_endpoint_up)
  have b: "received (broadcast ?s' m) w = received ?s' w @ [m]"
    using received_broadcast [OF d, of m w] mem up by simp
  have r1: "received ?s' w = received s w @ [latest_sample s]" if "latest_sample s \<noteq> []"
    using that assms(2) by (simp add: ws_endpoint_up received_def)
  have r2: "received ?s' w = received s w" if "latest_sample s = []"
    using that assms(2) by (simp add: ws_endpoint_up received_def)
  from b r1 r2 show ?thesis by simp
qed

theorem ws_endpoint_latest_first_witness:
  "received (broadcast (ws_endpoint
       ((initial_state (\<lambda>w. Up) :: (real, nat) state)\<lparr>latest_sample := [(''t_ms'', JInt 5)]\<rparr>) 7)
       [(''t_ms'', JInt 6)]) 7
     = [[(''t_ms'', JInt 5)], [(''t_ms'', JInt 6)]]
   \<and> received (ws_endpoint (initial_state (\<lambda>w. Up) :: (real, nat) state) 7) 7 = []
   \<and> received (broadcast (ws_endpoint (initial_state (\<lambda>w. Up) :: (real, nat) state) 7)
       [(''t_ms'', JInt 6)]) 7 = [[(''t_ms'', JInt 6)]]"
proof -
  let ?s0 = "initial_state (\<lambda>w. Up) :: (real, nat) state"
  let ?s1 = "?s0\<lparr>latest_sample := [(''t_ms'', JInt 5)]\<rparr>"
  have d0: "distinct (clients ?s0)" and u0: "link ?s0 7 = Up"
    and e0: "latest_sample ?s0 = []" and r0: "received ?s0 7 = []"
    by (simp_all add: initial_state_def received_def)
  have d1: "distinct (clients ?s1)" and u1: "link ?s1 7 = Up"
    and e1: "latest_sample ?s1 = [(''t_ms'', JInt 5)]" and r1: "received ?s1 7 = []"
    by (simp_all add: initial_state_def received_def)
  from ws_endpoint_latest_first [OF d1 u1, of "[(''t_ms'', JInt 6)]"] e1 r1
  have a: "received (broadcast (ws_endpoint ?s1 7) [(''t_ms'', JInt 6)]) 7
             = [[(''t_ms'', JInt 5)], [(''t_ms'', JInt 6)]]"
    by simp
  from ws_endpoint_latest_first [OF d0 u0, of "[(''t_ms'', JInt 6)]"] e0 r0
  have b: "received (ws_endpoint ?s0 7) 7 = []
         \<and> received (broadcast (ws_endpoint ?s0 7) [(''t_ms'', JInt 6)]) 7 = [[(''t_ms'', JInt 6)]]"
    by simp
  from a b show ?thesis by simp
qed

section \<open>Simulation control\<close>

text \<open>
  C5. While the flag is set, \<open>start_simulation\<close> changes nothing (in particular it
  creates no task) and reports that the simulation is already running; while the flag
  is clear, \<open>stop_simulation\<close> changes nothing and reports that it is not running.
  Otherwise \<open>start_simulation\<close> sets the flag and creates exactly one generator task,
  and \<open>stop_simulation\<close> clears the flag and creates none.
\<close>

theorem simulation_start_stop:
  "(simulation_mode s \<longrightarrow> start_simulation s = (s, ''simulation already running''))
   \<and> (\<not> simulation_mode s \<longrightarrow> stop_simulation s = (s, ''simulation not running''))
   \<and> (\<not> simulation_mode s \<longrightarrow>
        snd (start_simulation s) = ''simulation started''
      \<and> simulation_mode (fst (start_simulation s))
      \<and> generators (fst (start_simulation s)) = generators s + 1
      \<and> simulation_task (fst (start_simulation s)) = Some (generators s))
   \<and> (simulation_mode s \<longrightarrow>
        stop_simulation s = (s\<lparr>simulation_mode := False\<rparr>, ''simulation stopped''))"
  by (simp add: start_simulation_def stop_simulation_def)

theorem simulation_start_stop_witness:
  "generators (fst (start_simulation (fst (start_simulation
       (initial_state (\<lambda>w. Up) :: (real, nat) state))))) = 1
   \<and> snd (start_simulation (fst (start_simulation
       (initial_state (\<lambda>w. Up) :: (real, nat) state)))) = ''simulation already running''
   \<and> snd (stop_simulation (initial_state (\<lambda>w. Up) :: (real, nat) state)) = ''simulation not running''
   \<and> \<not> simulation_mode (fst (stop_simulation (fst (start_simulation
       (initial_state (\<lambda>w. Up) :: (real, nat) state)))))"
proof -
  let ?s0 = "initial_state (\<lambda>w. Up) :: (real, nat) state"
  let ?s1 = "fst (start_simulation ?s0)"
  have off: "\<not> simulation_mode ?s0" and g0: "generators ?s0 = 0"
    by (simp_all add: initial_state_def)
  from simulation_start_stop [of ?s0] off g0
  have s1: "simulation_mode ?s1" "generators ?s1 = 1"
    and stop0: "snd (stop_simulation ?s0) = ''simulation not running''"
    by simp_all
  from simulation_start_stop [of ?s1] s1
  have again: "start_simulation ?s1 = (?s1, ''simulation already running'')"
    and stop1: "stop_simulation ?s1 = (?s1\<lparr>simulation_mode := False\<rparr>, ''simulation stopped'')"
    by simp_all
  from s1 stop0 again stop1 show ?thesis by simp
qed

section \<open>Store queries\<close>

lemma fold_max_Max: "fold max ls (l :: int) = Max (set (l # ls))"
  by (simp only: Max.set_eq_fold)

text \<open>
  C8. Whenever the database can be opened, \<open>get_laps\<close> returns the lap numbers of the
  stored rows, each once, in strictly ascending order, and \<open>get_latest_lap\<close> returns
  their maximum, or \<open>0\<close> when the table is empty; \<open>api_laps\<close> returns both. Appending
  samples with laps 1, 1, 2, 3, 2 to an empty table and listing gives 1, 2, 3 and the
  maximum 3.
\<close>

theorem get_laps_ascending_distinct:
  assumes "available st"
  shows "(\<exists>laps. get_laps st = Inr laps
            \<and> sorted_wrt (<) laps
            \<and> set laps = col_lap ` set (rows st)
            \<and> get_latest_lap st = Inr (if rows st = [] then 0 else Max (col_lap ` set (rows st)))
            \<and> api_laps st = Inr (laps, if rows st = [] then 0 else Max (col_lap ` set (rows st))))
       \<and> (\<forall>rt :: 'f pyrt.
            case insert_samples rt empty_store
                   [[(''t_ms'', JInt 10), (''lap'', JInt 1)], [(''t_ms'', JInt 20), (''lap'', JInt 1)],
                    [(''t_ms'', JInt 30), (''lap'', JInt 2)], [(''t_ms'', JInt 40), (''lap'', JInt 3)],
                    [(''t_ms'', JInt 50), (''lap'', JInt 2)]] of
              Inl e \<Rightarrow> False
            | Inr st' \<Rightarrow> get_laps st' = Inr [1, 2, 3] \<and> get_latest_lap st' = Inr 3)"
proof -
  let ?laps = "sort (remdups (map col_lap (rows st)))"
  have g: "get_laps st = Inr ?laps"
    using assms by (simp add: get_laps_def)
  have so: "sorted_wrt (<) ?laps"
    by (simp add: strict_sorted_iff)
  have se: "set ?laps = col_lap ` set (rows st)"
    by simp
  have m: "get_latest_lap st = Inr (if rows st = [] then 0 else Max (col_lap ` set (rows st)))"
  proof (cases "rows st")
    case Nil
    with assms show ?thesis by (simp add: get_latest_lap_def)
  next
    case (Cons r rs)
    have "fold max (map col_lap rs) (col_lap r) = Max (set (col_lap r # map col_lap rs))"
      by (rule fold_max_Max)
    with Cons assms show ?thesis by (simp add: get_latest_lap_def)
  qed
  have a: "api_laps st = Inr (?laps, if rows st = [] then 0 else Max (col_lap ` set (rows st)))"
    by (simp add: api_laps_def g m)
  have ex: "\<forall>rt :: 'f pyrt.
            case insert_samples rt empty_store
                   [[(''t_ms'', JInt 10), (''lap'', JInt 1)], [(''t_ms'', JInt 20), (''lap'', JInt 1)],
                    [(''t_ms'', JInt 30), (''lap'', JInt 2)], [(''t_ms'', JInt 40), (''lap'', JInt 3)],
                    [(''t_ms'', JInt 50), (''lap'', JInt 2)]] of
              Inl e \<Rightarrow> False
            | Inr st' \<Rightarrow> get_laps st' = Inr [1, 2, 3] \<and> get_latest_lap st' = Inr 3"
    by (simp add: insert_sample_def empty_store_def dict_get_def dict_get_default_def
        get_laps_def get_latest_lap_def)
  from g so se m a ex show ?thesis by blast
qed

theorem get_laps_ascending_distinct_witness:
  "available \<lparr>rows = [\<lparr>col_t_ms = 10, col_lap = 4, col_values = []\<rparr>,
                      \<lparr>col_t_ms = 20, col_lap = - 1, col_values = []\<rparr>,
                      \<lparr>col_t_ms = 30, col_lap = 4, col_values = [] :: real sqlval list\<rparr>],
             available = True\<rparr>
   \<and> api_laps \<lparr>rows = [\<lparr>col_t_ms = 10, col_lap = 4, col_values = []\<rparr>,
                      \<lparr>col_t_ms = 20, col_lap = - 1, col_values = []\<rparr>,
                      \<lparr>col_t_ms = 30, col_lap = 4, col_values = [] :: real sqlval list\<rparr>],
             available = True\<rparr> = Inr ([- 1, 4], 4)"
proof -
  let ?st = "\<lparr>rows = [\<lparr>col_t_ms = 10, col_lap = 4, col_values = []\<rparr>,
                      \<lparr>col_t_ms = 20, col_lap = - 1, col_values = []\<rparr>,
                      \<lparr>col_t_ms = 30, col_lap = 4, col_values = [] :: real sqlval list\<rparr>],
             available = True\<rparr>"
  have av: "available ?st"
    by simp
  from get_laps_ascending_distinct [OF av]
  obtain laps where l: "get_laps ?st = Inr laps"
    and a: "api_laps ?st = Inr (laps, if rows ?st = [] then 0 else Max (col_lap ` set (rows ?st)))"
    by blast
  from l have "laps = [- 1, 4]"
    by (simp add: get_laps_def)
  with a av show ?thesis by simp
qed

section \<open>The live reader, the simulation flag and the store\<close>

lemma serial_reader_sim:
  assumes "simulation_mode s"
  shows "serial_reader rt cfg now s port_opens r = s\<lparr>reader := Connecting\<rparr>"
proof (cases "reader s")
  case Connecting
  then have "s\<lparr>reader := Connecting\<rparr> = s"
    by (cases s) simp
  with assms Connecting show ?thesis
    by (simp add: serial_reader_def serial_reader_connect_def)
next
  case Reading
  with assms show ?thesis
    by (simp add: serial_reader_def serial_reader_line_def)
qed

lemma serial_reader_line_stored:
  assumes "\<not> simulation_mode s"
    and "enrich_sample rt cfg now raw = Inr sample"
    and "insert_sample rt (database s) sample = Inr db"
  shows "serial_reader_line rt cfg now s (Decoded raw) =
           broadcast (s\<lparr>lines_read := Suc (lines_read s), latest_sample := sample,
                        database := db\<rparr>) sample"
  using assms by (simp add: serial_reader_line_def Let_def)



text \<open>
  C4, as the claim states it, fails in its account of the reader: live reading does not
  go on in the background. With the flag set, a reader that stands in its read loop
  leaves the loop without calling \<^verbatim>\<open>readline\<close>, and at the top of the outer loop it
  opens no port (even one that would open) and reads no line: the count of lines read
  stays at \<open>0\<close> over both passes.
\<close>

theorem live_reader_stops_reading_during_simulation:
  "reader (serial_reader exact_rt default_config 1000
       ((initial_state (\<lambda>w. Up) :: (real, nat) state)
          \<lparr>clients := [1], simulation_mode := True, reader := Reading\<rparr>)
       True (Decoded (JObj [(''A'', JInt 50)]))) = Connecting
   \<and> lines_read (serial_reader exact_rt default_config 1000
       ((initial_state (\<lambda>w. Up) :: (real, nat) state)
          \<lparr>clients := [1], simulation_mode := True, reader := Reading\<rparr>)
       True (Decoded (JObj [(''A'', JInt 50)]))) = 0
   \<and> reader (serial_reader exact_rt default_config 1100
       (serial_reader exact_rt default_config 1000
          ((initial_state (\<lambda>w. Up) :: (real, nat) state)
             \<lparr>clients := [1], simulation_mode := True, reader := Reading\<rparr>)
          True (Decoded (JObj [(''A'', JInt 50)])))
       True (Decoded (JObj [(''A'', JInt 50)]))) = Connecting
   \<and> lines_read (serial_reader exact_rt default_config 1100
       (serial_reader exact_rt default_config 1000
          ((initial_state (\<lambda>w. Up) :: (real, nat) state)
             \<lparr>clients := [1], simulation_mode := True, reader := Reading\<rparr>)
          True (Decoded (JObj [(''A'', JInt 50)])))
       True (Decoded (JObj [(''A'', JInt 50)]))) = 0"
  by (simp add: serial_reader_def serial_reader_line_def serial_reader_connect_def
      initial_state_def)

text \<open>
  C4, amended. While the flag is set, a pass of the live reader changes nothing but its
  own position, whatever the port would do and whatever line is waiting: the reader
  leaves its read loop and idles, no line is read, and nothing reaches the store, the
  cache or any observer. After \<open>stop_simulation\<close> the reader opens the port again, and
  the next decoded record is stored, cached and delivered to every subscribed socket
  whose connection is up.
\<close>

theorem live_output_suppressed_during_simulation:
  "(simulation_mode s \<longrightarrow>
      serial_reader rt cfg now s port_opens r = s\<lparr>reader := Connecting\<rparr>
    \<and> database (serial_reader rt cfg now s port_opens r) = database s
    \<and> delivered (serial_reader rt cfg now s port_opens r) = delivered s
    \<and> latest_sample (serial_reader rt cfg now s port_opens r) = latest_sample s
    \<and> lines_read (serial_reader rt cfg now s port_opens r) = lines_read s)
   \<and> (simulation_mode s \<and> reader s = Connecting \<and> distinct (clients s)
        \<and> enrich_sample rt cfg now raw = Inr sample
        \<and> insert_sample rt (database s) sample = Inr db \<longrightarrow>
      (let s1 = fst (stop_simulation s);
           s2 = serial_reader rt cfg now s1 True r;
           s3 = serial_reader rt cfg now s2 port_opens (Decoded raw)
       in reader s2 = Reading
        \<and> database s3 = db
        \<and> latest_sample s3 = sample
        \<and> (\<forall>w. received s3 w =
              received s w @ (if w \<in> set (clients s) \<and> link s w = Up then [sample] else []))))"
proof -
  have a: "serial_reader rt cfg now s port_opens r = s\<lparr>reader := Connecting\<rparr>"
    if "simulation_mode s"
    using that by (rule serial_reader_sim)
  have b: "(let s1 = fst (stop_simulation s);
           s2 = serial_reader rt cfg now s1 True r;
           s3 = serial_reader rt cfg now s2 port_opens (Decoded raw)
       in reader s2 = Reading
        \<and> database s3 = db
        \<and> latest_sample s3 = sample
        \<and> (\<forall>w. received s3 w =
              received s w @ (if w \<in> set (clients s) \<and> link s w = Up then [sample] else [])))"
    if sim: "simulation_mode s" and rd: "reader s = Connecting" and di: "distinct (clients s)"
      and en: "enrich_sample rt cfg now raw = Inr sample"
      and ins: "insert_sample rt (database s) sample = Inr db"
  proof -
    let ?s1 = "s\<lparr>simulation_mode := False\<rparr>"
    let ?s2 = "?s1\<lparr>reader := Reading\<rparr>"
    let ?t = "?s2\<lparr>lines_read := Suc (lines_read ?s2), latest_sample := sample, database := db\<rparr>"
    let ?s3 = "broadcast ?t sample"
    have s1: "fst (stop_simulation s) = ?s1"
      using sim by (simp add: stop_simulation_def)
    have s2: "serial_reader rt cfg now ?s1 True r = ?s2"
      using rd by (simp add: serial_reader_def serial_reader_connect_def)
    have "serial_reader rt cfg now ?s2 port_opens (Decoded raw) =
            serial_reader_line rt cfg now ?s2 (Decoded raw)"
      by (simp add: serial_reader_def)
    also have "\<dots> = ?s3"
      using en ins by (intro serial_reader_line_stored) simp_all
    finally have s3: "serial_reader rt cfg now ?s2 port_opens (Decoded raw) = ?s3" .
    have rec: "received ?s3 w =
                 received s w @ (if w \<in> set (clients s) \<and> link s w = Up then [sample] else [])"
      for w
    proof -
      have "distinct (clients ?t)"
        using di by simp
      from received_broadcast [OF this, of sample w]
      show ?thesis by (simp add: received_def)
    qed
    have "database ?s3 = db" "latest_sample ?s3 = sample"
      by (simp_all add: broadcast_eq)
    with rec show ?thesis
      unfolding Let_def s1 s2 s3 by simp
  qed
  from a b show ?thesis by simp
qed

theorem live_output_suppressed_during_simulation_witness:
  "serial_reader exact_rt default_config 1000
       ((initial_state (\<lambda>w. Up) :: (real, nat) state)\<lparr>clients := [1], simulation_mode := True\<rparr>)
       True (Decoded (JObj [(''A'', JInt 50)]))
     = ((initial_state (\<lambda>w. Up) :: (real, nat) state)\<lparr>clients := [1], simulation_mode := True\<rparr>)
         \<lparr>reader := Connecting\<rparr>
   \<and> received
       (serial_reader exact_rt default_config 1000
          (serial_reader exact_rt default_config 1000
             (fst (stop_simulation
                ((initial_state (\<lambda>w. Up) :: (real, nat) state)
                   \<lparr>clients := [1], simulation_mode := True\<rparr>)))
             True EmptyLine)
          True (Decoded (JObj [(''A'', JInt 50)]))) 1
     = [[(''t_ms'', JInt 1000), (''lap'', JInt 0), (''V'', JNull), (''A'', JInt 50),
         (''Ah'', JNull), (''mph'', JNull), (''torque'', JFloat 27), (''lat'', JNull),
         (''lon'', JNull)]]"
proof -
  let ?S = "(initial_state (\<lambda>w. Up) :: (real, nat) state)\<lparr>clients := [1], simulation_mode := True\<rparr>"
  let ?raw = "JObj [(''A'', JInt 50)] :: real json"
  let ?sample = "[(''t_ms'', JInt 1000), (''lap'', JInt 0), (''V'', JNull), (''A'', JInt 50),
         (''Ah'', JNull), (''mph'', JNull), (''torque'', JFloat 27), (''lat'', JNull),
         (''lon'', JNull)] :: real sample"
  let ?db = "\<lparr>rows = [\<lparr>col_t_ms = 1000, col_lap = 0,
                        col_values = [SqlNull, SqlInt 50, SqlNull, SqlNull, SqlReal 27,
                                      SqlNull, SqlNull]\<rparr>],
              available = True\<rparr> :: real store"
  have sim: "simulation_mode ?S" and rd: "reader ?S = Connecting"
    and di: "distinct (clients ?S)" and cl: "clients ?S = [1]" and up: "link ?S 1 = Up"
    and re: "received ?S 1 = []"
    by (simp_all add: initial_state_def received_def)
  have en: "enrich_sample exact_rt default_config 1000 ?raw = Inr ?sample"
    by (simp add: enrich_eval)
  have dbS: "database ?S = \<lparr>rows = [], available = True\<rparr>"
    by (simp add: initial_state_def)
  have ins: "insert_sample exact_rt (database ?S) ?sample = Inr ?db"
    unfolding dbS by (simp add: insert_sample_def dict_get_def dict_get_default_def)
  note inst = live_output_suppressed_during_simulation
    [where s = ?S and rt = exact_rt and cfg = default_config and now = 1000
       and port_opens = True and raw = ?raw and sample = ?sample and db = ?db]
  from inst [where r = "Decoded ?raw"] sim
  have a: "serial_reader exact_rt default_config 1000 ?S True (Decoded ?raw)
             = ?S\<lparr>reader := Connecting\<rparr>"
    by blast
  from inst [where r = EmptyLine] sim rd di en ins
  have "let s1 = fst (stop_simulation ?S);
            s2 = serial_reader exact_rt default_config 1000 s1 True EmptyLine;
            s3 = serial_reader exact_rt default_config 1000 s2 True (Decoded ?raw)
        in \<forall>w. received s3 w =
              received ?S w @ (if w \<in> set (clients ?S) \<and> link ?S w = Up then [?sample] else [])"
    unfolding Let_def by blast
  then have b: "received
       (serial_reader exact_rt default_config 1000
          (serial_reader exact_rt default_config 1000 (fst (stop_simulation ?S)) True EmptyLine)
          True (Decoded ?raw)) 1
      = received ?S 1 @ (if 1 \<in> set (clients ?S) \<and> link ?S 1 = Up then [?sample] else [])"
    unfolding Let_def by blast
  have "received ?S 1 @ (if 1 \<in> set (clients ?S) \<and> link ?S 1 = Up then [?sample] else [])
          = [?sample]"
    unfolding re cl up by simp
  with a b show ?thesis by simp
qed





end
